theory Spec2Isabelle
  imports Main
begin

section \<open>Python values\<close>

text \<open>
  A Python \<open>str\<close> is a sequence of Unicode code points, so it is modelled as a list of
  naturals; \<open>ustr\<close> writes an ASCII literal. The literals of the source that are not
  ASCII are given by their code points.
\<close>

type_synonym pystr = "nat list"

definition ustr :: "string \<Rightarrow> pystr" where
  "ustr cs = map of_char cs"

text \<open>
  The exception classes that occur. \<open>SystemExit\<close>, \<open>KeyboardInterrupt\<close> and
  \<open>GeneratorExit\<close> derive from \<open>BaseException\<close> only; every other class derives from
  \<open>Exception\<close>, which is what \<open>except Exception\<close> catches.
\<close>

datatype exn =
    AttributeError
  | TypeError
  | KeyError
  | IndexError
  | UnboundLocalError
  | ParseError
  | WebSocketClosed
  | OtherException pystr
  | SystemExit int
  | KeyboardInterrupt
  | GeneratorExit

fun is_Exception :: "exn \<Rightarrow> bool" where
  "is_Exception (SystemExit _) = False"
| "is_Exception KeyboardInterrupt = False"
| "is_Exception GeneratorExit = False"
| "is_Exception _ = True"

text \<open>
  The values that travel through action requests and responses. \<open>ActionResponse\<close> is
  declared in a module that is not among the sources: an instance is represented by the
  keyword arguments of the constructor call that built it, in the order written.
\<close>

datatype pyval =
    VNone
  | VBool bool
  | VInt int
  | VStr pystr
  | VList "pyval list"
  | VDict "(pystr \<times> pyval) list"
  | ActionResponse "(pystr \<times> pyval) list"

fun truthy :: "pyval \<Rightarrow> bool" where
  "truthy VNone = False"
| "truthy (VBool b) = b"
| "truthy (VInt i) = (i \<noteq> 0)"
| "truthy (VStr s) = (s \<noteq> [])"
| "truthy (VList xs) = (xs \<noteq> [])"
| "truthy (VDict d) = (d \<noteq> [])"
| "truthy (ActionResponse kw) = True"

text \<open>\<open>v[key]\<close> with a string key: only a dict can be subscripted that way.\<close>

fun subscript :: "pyval \<Rightarrow> pystr \<Rightarrow> exn + pyval" where
  "subscript (VDict d) k = (case map_of d k of None \<Rightarrow> Inl KeyError | Some v \<Rightarrow> Inr v)"
| "subscript _ k = Inl TypeError"

text \<open>\<open>for member in v\<close>: the items of a list, the keys of a dict, the characters of a str.\<close>

fun iterate :: "pyval \<Rightarrow> exn + pyval list" where
  "iterate (VList xs) = Inr xs"
| "iterate (VDict d) = Inr (map (\<lambda>kv. VStr (fst kv)) d)"
| "iterate (VStr s) = Inr (map (\<lambda>c. VStr [c]) s)"
| "iterate _ = Inl TypeError"

section \<open>The automation capability\<close>

text \<open>
  \<open>ComWechatApi\<close> is the external automation layer. A call is a method name with its
  arguments; the capability answers a call as a function of the calls made before, and
  every call made is recorded. An argument is a value, or the string
  \<open>str((Path(p) / name).absolute())\<close> that \<open>open_recv_msg\<close> computes, kept symbolic.
\<close>

datatype arg = Val pyval | AbsPathStr pystr pystr

type_synonym call = "pystr \<times> arg list"

record com_api =
  answer :: "call list \<Rightarrow> call \<Rightarrow> exn + pyval"
  calls :: "call list"

definition com_call :: "com_api \<Rightarrow> pystr \<Rightarrow> arg list \<Rightarrow> (exn + pyval) \<times> com_api" where
  "com_call c name args =
     (answer c (calls c) (name, args), c\<lparr>calls := calls c @ [(name, args)]\<rparr>)"

text \<open>
  What a method call does: \<open>None\<close> when it never returns, otherwise the value returned or
  the exception raised, with the capability as the call left it.
\<close>

type_synonym result = "((exn + pyval) \<times> com_api) option"

section \<open>ApiManager\<close>

partial_function (option) wait_for_login :: "com_api \<Rightarrow> ((exn + pyval) \<times> com_api) option" where
  "wait_for_login c =
     (case com_call c (ustr ''is_wechat_login'') [] of
        (Inl e, c') \<Rightarrow>
          if e = KeyboardInterrupt then Some (Inr (VBool False), c') else Some (Inl e, c')
      | (Inr v, c') \<Rightarrow>
          if truthy v then Some (Inr (VBool True), c') else wait_for_login c')"

text \<open>\<open>self.com_api.close()\<close> followed by \<open>exit(0)\<close>.\<close>

definition close_and_exit :: "com_api \<Rightarrow> (exn + pyval) \<times> com_api" where
  "close_and_exit c =
     (case com_call c (ustr ''close'') [] of
        (Inl e, c') \<Rightarrow> (Inl e, c')
      | (Inr _, c') \<Rightarrow> (Inl (SystemExit 0), c'))"

definition init :: "com_api \<Rightarrow> result" where
  "init c0 =
     (case com_call c0 (ustr ''init'') [] of
        (Inl e, c1) \<Rightarrow> Some (Inl e, c1)
      | (Inr r1, c1) \<Rightarrow>
          if \<not> truthy r1 then Some (Inl (SystemExit 0), c1)
          else
            (case com_call c1 (ustr ''init_wechat_pid'') [] of
               (Inl e, c2) \<Rightarrow> Some (Inl e, c2)
             | (Inr r2, c2) \<Rightarrow>
                 if \<not> truthy r2 then Some (close_and_exit c2)
                 else
                   (case com_call c2 (ustr ''start_service'') [] of
                      (Inl e, c3) \<Rightarrow> Some (Inl e, c3)
                    | (Inr r3, c3) \<Rightarrow>
                        if \<not> truthy r3 then Some (close_and_exit c3)
                        else
                          (case wait_for_login c3 of
                             None \<Rightarrow> None
                           | Some (Inl e, c4) \<Rightarrow> Some (Inl e, c4)
                           | Some (Inr r4, c4) \<Rightarrow>
                               if \<not> truthy r4 then Some (close_and_exit c4)
                               else Some (Inr VNone, c4)))))"

text \<open>\<open>Path(file_path)\<close> raises \<open>TypeError\<close> unless \<open>file_path\<close> is a str.\<close>

definition open_recv_msg :: "pyval \<Rightarrow> com_api \<Rightarrow> result" where
  "open_recv_msg file_path c0 =
     (case com_call c0 (ustr ''register_msg_event'') [] of
        (Inl e, c1) \<Rightarrow> Some (Inl e, c1)
      | (Inr _, c1) \<Rightarrow>
          (case com_call c1 (ustr ''start_receive_message'') [] of
             (Inl e, c2) \<Rightarrow> Some (Inl e, c2)
           | (Inr _, c2) \<Rightarrow>
               (case file_path of
                  VStr p \<Rightarrow>
                    (case com_call c2 (ustr ''hook_image_msg'') [AbsPathStr p (ustr ''image'')] of
                       (Inl e, c3) \<Rightarrow> Some (Inl e, c3)
                     | (Inr _, c3) \<Rightarrow>
                         (case com_call c3 (ustr ''hook_voice_msg'') [AbsPathStr p (ustr ''voice'')] of
                            (Inl e, c4) \<Rightarrow> Some (Inl e, c4)
                          | (Inr _, c4) \<Rightarrow> Some (Inr VNone, c4)))
                | _ \<Rightarrow> Some (Inl TypeError, c2))))"

definition close :: "com_api \<Rightarrow> result" where
  "close c =
     (case com_call c (ustr ''close'') [] of
        (Inl e, c') \<Rightarrow> Some (Inl e, c')
      | (Inr _, c') \<Rightarrow> Some (Inr VNone, c'))"

definition get_wxid :: "com_api \<Rightarrow> result" where
  "get_wxid c =
     (case com_call c (ustr ''get_self_info'') [] of
        (Inl e, c') \<Rightarrow> Some (Inl e, c')
      | (Inr info, c') \<Rightarrow> Some (subscript info (ustr ''wxId''), c'))"

definition register_message_handler :: "pyval \<Rightarrow> com_api \<Rightarrow> result" where
  "register_message_handler func c =
     (case com_call c (ustr ''register_message_handler'') [Val func] of
        (Inl e, c') \<Rightarrow> Some (Inl e, c')
      | (Inr _, c') \<Rightarrow> Some (Inr VNone, c'))"

text \<open>
  \<open>__init__\<close>: \<open>self.com_api = ComWechatApi()\<close>. The construction is a call on the
  external layer like any other, under the name of the class; the object it makes is
  not told apart from the one it replaces.
\<close>

definition ApiManager_init :: "com_api \<Rightarrow> result" where
  "ApiManager_init c =
     (case com_call c (ustr ''ComWechatApi'') [] of
        (Inl e, c') \<Rightarrow> Some (Inl e, c')
      | (Inr _, c') \<Rightarrow> Some (Inr VNone, c'))"

section \<open>ActionManager: the actions\<close>

definition ok_response :: "pyval \<Rightarrow> pyval" where
  "ok_response d =
     ActionResponse [(ustr ''status'', VStr (ustr ''ok'')), (ustr ''retcode'', VInt 200),
                     (ustr ''data'', d)]"

definition send_message :: "com_api \<Rightarrow> result" where
  "send_message c = Some (Inr VNone, c)"

definition get_self_info :: "com_api \<Rightarrow> result" where
  "get_self_info c =
     (case com_call c (ustr ''get_self_info'') [] of
        (Inl e, c') \<Rightarrow> Some (Inl e, c')
      | (Inr info, c') \<Rightarrow>
          (case subscript info (ustr ''WxId'') of
             Inl e \<Rightarrow> Some (Inl e, c')
           | Inr wxid \<Rightarrow>
               (case subscript info (ustr ''Name'') of
                  Inl e \<Rightarrow> Some (Inl e, c')
                | Inr name \<Rightarrow>
                    Some (Inr (ok_response (VDict
                      [(ustr ''user_id'', wxid), (ustr ''user_name'', name),
                       (ustr ''user_displayname'', VStr [])])), c'))))"

definition get_user_info :: "pyval \<Rightarrow> com_api \<Rightarrow> result" where
  "get_user_info user_id c =
     (case com_call c (ustr ''get_user_info'') [Val user_id] of
        (Inl e, c') \<Rightarrow> Some (Inl e, c')
      | (Inr info, c') \<Rightarrow>
          (case subscript info (ustr ''Name'') of
             Inl e \<Rightarrow> Some (Inl e, c')
           | Inr name \<Rightarrow>
               (case subscript info (ustr ''remark'') of
                  Inl e \<Rightarrow> Some (Inl e, c')
                | Inr remark \<Rightarrow>
                    Some (Inr (ok_response (VDict
                      [(ustr ''user_id'', user_id), (ustr ''user_name'', name),
                       (ustr ''user_displayname'', VStr []),
                       (ustr ''user_remark'', remark)])), c'))))"

definition get_friend_list :: "com_api \<Rightarrow> result" where
  "get_friend_list c =
     (case com_call c (ustr ''get_friend_list'') [] of
        (Inl e, c') \<Rightarrow> Some (Inl e, c')
      | (Inr d, c') \<Rightarrow> Some (Inr (ok_response d), c'))"

definition get_group_info :: "pyval \<Rightarrow> com_api \<Rightarrow> result" where
  "get_group_info group_id c =
     (case com_call c (ustr ''get_user_info'') [Val group_id] of
        (Inl e, c') \<Rightarrow> Some (Inl e, c')
      | (Inr info, c') \<Rightarrow>
          (case subscript info (ustr ''name'') of
             Inl e \<Rightarrow> Some (Inl e, c')
           | Inr name \<Rightarrow>
               Some (Inr (ok_response (VDict
                 [(ustr ''group_id'', group_id), (ustr ''group_name'', name)])), c')))"

definition get_group_list :: "com_api \<Rightarrow> result" where
  "get_group_list c =
     (case com_call c (ustr ''get_group_list'') [] of
        (Inl e, c') \<Rightarrow> Some (Inl e, c')
      | (Inr d, c') \<Rightarrow> Some (Inr (ok_response d), c'))"

definition get_group_member_info :: "pyval \<Rightarrow> pyval \<Rightarrow> com_api \<Rightarrow> result" where
  "get_group_member_info group_id user_id c =
     (case com_call c (ustr ''get_group_members'') [Val group_id] of
        (Inl e, c') \<Rightarrow> Some (Inl e, c')
      | (Inr info, c') \<Rightarrow>
          (case subscript info (ustr ''name'') of
             Inl e \<Rightarrow> Some (Inl e, c')
           | Inr name \<Rightarrow>
               Some (Inr (ok_response (VDict
                 [(ustr ''user_id'', user_id), (ustr ''user_name'', name),
                  (ustr ''user_displayname'', VStr [])])), c')))"

text \<open>The list comprehension of \<open>get_group_member_list\<close>, member by member.\<close>

fun member_entries :: "pyval list \<Rightarrow> exn + pyval list" where
  "member_entries [] = Inr []"
| "member_entries (member # ms) =
     (case subscript member (ustr ''wxid'') of
        Inl e \<Rightarrow> Inl e
      | Inr wxid \<Rightarrow>
          (case subscript member (ustr ''name'') of
             Inl e \<Rightarrow> Inl e
           | Inr name \<Rightarrow>
               (case member_entries ms of
                  Inl e \<Rightarrow> Inl e
                | Inr rest \<Rightarrow>
                    Inr (VDict [(ustr ''user_id'', wxid), (ustr ''user_name'', name),
                                (ustr ''user_displayname'', VStr [])] # rest))))"

definition get_group_member_list :: "pyval \<Rightarrow> com_api \<Rightarrow> result" where
  "get_group_member_list group_id c =
     (case com_call c (ustr ''get_group_members'') [Val group_id] of
        (Inl e, c') \<Rightarrow> Some (Inl e, c')
      | (Inr info, c') \<Rightarrow>
          (case iterate info of
             Inl e \<Rightarrow> Some (Inl e, c')
           | Inr members \<Rightarrow>
               (case member_entries members of
                  Inl e \<Rightarrow> Some (Inl e, c')
                | Inr d \<Rightarrow> Some (Inr (ok_response (VList d)), c'))))"

definition set_group_name :: "pyval \<Rightarrow> pyval \<Rightarrow> com_api \<Rightarrow> result" where
  "set_group_name group_id group_name c =
     (case com_call c (ustr ''set_group_name'') [Val group_id, Val group_name] of
        (Inl e, c') \<Rightarrow> Some (Inl e, c')
      | (Inr _, c') \<Rightarrow> Some (Inr (ok_response VNone), c'))"

definition leave_group :: "pyval \<Rightarrow> com_api \<Rightarrow> result" where
  "leave_group group_id c =
     (case com_call c (ustr ''delete_groupmember'') [] of
        (Inl e, c') \<Rightarrow> Some (Inl e, c')
      | (Inr _, c') \<Rightarrow> Some (Inr (ok_response VNone), c'))"

section \<open>Attribute lookup and the call with keyword arguments\<close>

text \<open>
  A bound method: the names of its parameters without a default, the names of those with
  one (every default in the source is \<open>None\<close>), and its body over the bound arguments.
\<close>

record bound_method =
  required :: "pystr list"
  optional :: "pystr list"
  body :: "(pystr \<Rightarrow> pyval) \<Rightarrow> com_api \<Rightarrow> result"

text \<open>What \<open>getattr\<close> can return: a bound method, or an object that is not callable.\<close>

datatype attr = Method bound_method | Object

text \<open>
  \<open>func(**params)\<close>: \<open>TypeError\<close> when \<open>func\<close> is not callable, when a keyword is not
  a parameter of the method, or when a parameter without default is not given.
\<close>

definition call_kwargs :: "attr \<Rightarrow> (pystr \<times> pyval) list \<Rightarrow> com_api \<Rightarrow> result" where
  "call_kwargs func kwargs c =
     (case func of
        Object \<Rightarrow> Some (Inl TypeError, c)
      | Method m \<Rightarrow>
          if list_all (\<lambda>k. k \<in> set (required m @ optional m)) (map fst kwargs)
             \<and> list_all (\<lambda>k. k \<in> set (map fst kwargs)) (required m)
          then body m (\<lambda>k. case map_of kwargs k of None \<Rightarrow> VNone | Some v \<Rightarrow> v) c
          else Some (Inl TypeError, c))"

text \<open>
  \<open>ActionRequest\<close> (its declaration is not among the sources): the action name and the
  mapping of named parameters, keys unique.
\<close>

record action_request =
  action :: pystr
  params :: "(pystr \<times> pyval) list"

text \<open>
  \<open>ApiManager.request\<close>. The object \<open>this\<close> is given by what \<open>getattr(self, name)\<close>
  finds: \<open>None\<close> when the name is not an attribute, which raises \<open>AttributeError\<close>
  before the \<open>try\<close> is entered. Logging is not modelled.
\<close>

definition request :: "(pystr \<Rightarrow> attr option) \<Rightarrow> action_request \<Rightarrow> com_api \<Rightarrow> result" where
  "request this req c =
     (case this (action req) of
        None \<Rightarrow> Some (Inl AttributeError, c)
      | Some func \<Rightarrow>
          (case call_kwargs func (params req) c of
             None \<Rightarrow> None
           | Some (Inl e, c') \<Rightarrow>
               if is_Exception e
               then Some (Inr (ActionResponse
                      [(ustr ''status'', VInt 500),
                       (ustr ''msg'', VStr [20869, 37096, 26381, 21153, 38169, 35823, 46, 46, 46]),
                       (ustr ''data'', VDict [])]), c')
               else Some (Inl e, c')
           | Some (Inr r, c') \<Rightarrow>
               Some (Inr (ActionResponse
                      [(ustr ''status'', VInt 200),
                       (ustr ''msg'', VStr [35831, 27714, 25104, 21151]),
                       (ustr ''data'', r)]), c')))"

text \<open>
  The attributes of an \<open>ActionManager\<close> instance that the two class bodies write out:
  the methods, \<open>__init__\<close> among them, and the instance attribute \<open>com_api\<close>. The
  attributes that Python adds to every class (\<open>__doc__\<close>, \<open>__module__\<close>, ...) and
  those inherited from \<open>object\<close> are not listed: the table says nothing true about
  such a name. \<open>request\<close> itself is one of the methods: its parameter would have to be
  an object with an attribute \<open>action\<close>, which no value of \<open>pyval\<close> has.
\<close>

definition ActionManager_dict :: "(pystr \<times> attr) list" where
  "ActionManager_dict =
     [(ustr ''com_api'', Object),
      (ustr ''__init__'',
         Method \<lparr>required = [], optional = [], body = (\<lambda>a. ApiManager_init)\<rparr>),
      (ustr ''send_message'',
         Method \<lparr>required = [ustr ''detail_type'', ustr ''message''],
                 optional = [ustr ''user_id'', ustr ''group_id'', ustr ''guild_id'',
                             ustr ''channel_id''],
                 body = (\<lambda>a. send_message)\<rparr>),
      (ustr ''get_self_info'',
         Method \<lparr>required = [], optional = [], body = (\<lambda>a. get_self_info)\<rparr>),
      (ustr ''get_user_info'',
         Method \<lparr>required = [ustr ''user_id''], optional = [],
                 body = (\<lambda>a. get_user_info (a (ustr ''user_id'')))\<rparr>),
      (ustr ''get_friend_list'',
         Method \<lparr>required = [], optional = [], body = (\<lambda>a. get_friend_list)\<rparr>),
      (ustr ''get_group_info'',
         Method \<lparr>required = [ustr ''group_id''], optional = [],
                 body = (\<lambda>a. get_group_info (a (ustr ''group_id'')))\<rparr>),
      (ustr ''get_group_list'',
         Method \<lparr>required = [], optional = [], body = (\<lambda>a. get_group_list)\<rparr>),
      (ustr ''get_group_member_info'',
         Method \<lparr>required = [ustr ''group_id'', ustr ''user_id''], optional = [],
                 body = (\<lambda>a. get_group_member_info (a (ustr ''group_id''))
                                                      (a (ustr ''user_id'')))\<rparr>),
      (ustr ''get_group_member_list'',
         Method \<lparr>required = [ustr ''group_id''], optional = [],
                 body = (\<lambda>a. get_group_member_list (a (ustr ''group_id'')))\<rparr>),
      (ustr ''set_group_name'',
         Method \<lparr>required = [ustr ''group_id'', ustr ''group_name''], optional = [],
                 body = (\<lambda>a. set_group_name (a (ustr ''group_id''))
                                               (a (ustr ''group_name'')))\<rparr>),
      (ustr ''leave_group'',
         Method \<lparr>required = [ustr ''group_id''], optional = [],
                 body = (\<lambda>a. leave_group (a (ustr ''group_id'')))\<rparr>),
      (ustr ''init'',
         Method \<lparr>required = [], optional = [], body = (\<lambda>a. init)\<rparr>),
      (ustr ''wait_for_login'',
         Method \<lparr>required = [], optional = [], body = (\<lambda>a. wait_for_login)\<rparr>),
      (ustr ''open_recv_msg'',
         Method \<lparr>required = [ustr ''file_path''], optional = [],
                 body = (\<lambda>a. open_recv_msg (a (ustr ''file_path'')))\<rparr>),
      (ustr ''close'',
         Method \<lparr>required = [], optional = [], body = (\<lambda>a. close)\<rparr>),
      (ustr ''get_wxid'',
         Method \<lparr>required = [], optional = [], body = (\<lambda>a. get_wxid)\<rparr>),
      (ustr ''request'',
         Method \<lparr>required = [ustr ''request''], optional = [],
                 body = (\<lambda>a c. Some (Inl AttributeError, c))\<rparr>),
      (ustr ''register_message_handler'',
         Method \<lparr>required = [ustr ''func''], optional = [],
                 body = (\<lambda>a. register_message_handler (a (ustr ''func'')))\<rparr>)]"

definition ActionManager :: "pystr \<Rightarrow> attr option" where
  "ActionManager name = map_of ActionManager_dict name"

text \<open>The methods that carry the decorator \<open>add_action\<close>: the declared actions.\<close>

definition declared_actions :: "pystr list" where
  "declared_actions =
     [ustr ''send_message'', ustr ''get_self_info'', ustr ''get_user_info'',
      ustr ''get_friend_list'', ustr ''get_group_info'', ustr ''get_group_list'',
      ustr ''get_group_member_info'', ustr ''get_group_member_list'',
      ustr ''set_group_name'', ustr ''leave_group'']"

section \<open>Strings, XML and the mention pattern\<close>

text \<open>\<open>sub in s\<close> on strings, \<open>s.split(",")\<close> and \<open>str(i)\<close> for an integer.\<close>

definition starts_with :: "pystr \<Rightarrow> pystr \<Rightarrow> bool" where
  "starts_with p s = (take (length p) s = p)"

fun contains :: "pystr \<Rightarrow> pystr \<Rightarrow> bool" where
  "contains p [] = (p = [])"
| "contains p (c # cs) = (starts_with p (c # cs) \<or> contains p cs)"

fun split_from :: "nat \<Rightarrow> pystr \<Rightarrow> pystr \<Rightarrow> pystr list" where
  "split_from sep piece [] = [piece]"
| "split_from sep piece (c # cs) =
     (if c = sep then piece # split_from sep [] cs else split_from sep (piece @ [c]) cs)"

definition split :: "nat \<Rightarrow> pystr \<Rightarrow> pystr list" where
  "split sep s = split_from sep [] s"

function str_nat :: "nat \<Rightarrow> pystr" where
  "str_nat n = (if n < 10 then [48 + n] else str_nat (n div 10) @ [48 + n mod 10])"
  by pat_completeness auto
termination
  by (relation "measure (\<lambda>n. n)") auto

definition str_int :: "int \<Rightarrow> pystr" where
  "str_int i = (if i < 0 then 45 # str_nat (nat (- i)) else str_nat (nat i))"

text \<open>
  An \<open>xml.etree.ElementTree.Element\<close>: tag, attributes, the text before the first
  child (\<open>None\<close> when there is none), the children, and the text after the end tag.
\<close>

datatype element =
  Element (tag: pystr) (attrib: "(pystr \<times> pystr) list") (text_of: "pystr option")
          (children: "element list") (tail: "pystr option")

fun first_some :: "('a \<Rightarrow> 'b option) \<Rightarrow> 'a list \<Rightarrow> 'b option" where
  "first_some f [] = None"
| "first_some f (x # xs) = (case f x of None \<Rightarrow> first_some f xs | Some y \<Rightarrow> Some y)"

text \<open>
  \<open>Element.find\<close> for a path \<open>./n1/n2/...\<close>, given as the list of its names: the first
  match in document order among the descendants reached through children of those tags.
  The element itself is never a match of a non-empty path.
\<close>

fun find_path :: "pystr list \<Rightarrow> element \<Rightarrow> element option" where
  "find_path [] e = Some e"
| "find_path (n # ns) e = first_some (find_path ns) (filter (\<lambda>ch. tag ch = n) (children e))"

text \<open>
  \<open>ET.fromstring\<close> belongs to the standard library. The functions below take the parser
  as a parameter \<open>fromstring\<close>. \<open>ET_fromstring\<close> is a parser for a fragment of XML, for
  the documents that the closed theorems use: one root element; start and end tags
  that hold a name and nothing else (no attributes, no white space, no empty-element
  tags), the name in ASCII; character data made of the characters XML allows other than
  \<open>&\<close>, \<open><\<close>, \<open>>\<close> and carriage return; spaces, tabs and line feeds allowed around
  the root. Where it answers with an element, that is the element the library builds.
  Every other document it answers with \<open>ParseError\<close>, whatever the library does with
  it; so no statement for all documents is made about \<open>ET_fromstring\<close>.
\<close>

datatype token = TOpen pystr | TClose pystr | TText pystr

definition is_name_start :: "nat \<Rightarrow> bool" where
  "is_name_start c = ((65 \<le> c \<and> c \<le> 90) \<or> (97 \<le> c \<and> c \<le> 122) \<or> c = 95)"

definition is_name_char :: "nat \<Rightarrow> bool" where
  "is_name_char c = (is_name_start c \<or> (48 \<le> c \<and> c \<le> 57) \<or> c = 45 \<or> c = 46)"

fun is_name :: "pystr \<Rightarrow> bool" where
  "is_name [] = False"
| "is_name (c # cs) = (is_name_start c \<and> list_all is_name_char cs)"

fun mk_tag :: "pystr \<Rightarrow> token option" where
  "mk_tag [] = None"
| "mk_tag (c # cs) =
     (if c = 47 then (if is_name cs then Some (TClose cs) else None)
      else if is_name (c # cs) then Some (TOpen (c # cs)) else None)"

definition is_data_char :: "nat \<Rightarrow> bool" where
  "is_data_char c =
     ((c = 9 \<or> c = 10 \<or> (32 \<le> c \<and> c \<le> 55295) \<or> (57344 \<le> c \<and> c \<le> 65533)
       \<or> (65536 \<le> c \<and> c \<le> 1114111))
      \<and> c \<noteq> 60 \<and> c \<noteq> 62 \<and> c \<noteq> 38)"

definition text_token :: "pystr \<Rightarrow> token list" where
  "text_token piece = (if piece = [] then [] else [TText piece])"

fun lex :: "bool \<Rightarrow> pystr \<Rightarrow> pystr \<Rightarrow> token list option" where
  "lex False piece [] = Some (text_token piece)"
| "lex True piece [] = None"
| "lex False piece (c # cs) =
     (if c = 60 then map_option (\<lambda>ts. text_token piece @ ts) (lex True [] cs)
      else if \<not> is_data_char c then None
      else lex False (piece @ [c]) cs)"
| "lex True piece (c # cs) =
     (if c = 62
      then (case mk_tag piece of
              None \<Rightarrow> None
            | Some t \<Rightarrow> map_option (\<lambda>ts. t # ts) (lex False [] cs))
      else lex True (piece @ [c]) cs)"

text \<open>An element under construction: its tag, its text so far and its children so far.\<close>

type_synonym open_element = "pystr \<times> pystr option \<times> element list"

fun with_tail :: "pystr \<Rightarrow> element \<Rightarrow> element" where
  "with_tail t (Element n a tx ch old) = Element n a tx ch (Some t)"

fun add_text :: "pystr \<Rightarrow> open_element \<Rightarrow> open_element" where
  "add_text t (n, tx, ch) =
     (if ch = [] then (n, Some t, ch) else (n, tx, butlast ch @ [with_tail t (last ch)]))"

definition is_xml_space :: "nat \<Rightarrow> bool" where
  "is_xml_space c = (c = 32 \<or> c = 9 \<or> c = 10)"

fun build :: "open_element list \<Rightarrow> element option \<Rightarrow> token list \<Rightarrow> element option" where
  "build st root [] = (if st = [] then root else None)"
| "build st root (TOpen n # ts) =
     (case root of Some r \<Rightarrow> None | None \<Rightarrow> build ((n, None, []) # st) root ts)"
| "build st root (TText t # ts) =
     (case st of
        [] \<Rightarrow> if list_all is_xml_space t then build st root ts else None
      | fr # st' \<Rightarrow> build (add_text t fr # st') root ts)"
| "build st root (TClose n # ts) =
     (case st of
        [] \<Rightarrow> None
      | (m, tx, ch) # st' \<Rightarrow>
          if m \<noteq> n then None
          else (case st' of
                  [] \<Rightarrow> build [] (Some (Element m [] tx ch None)) ts
                | (m', tx', ch') # st'' \<Rightarrow>
                    build ((m', tx', ch' @ [Element m [] tx ch None]) # st'') root ts))"

definition ET_fromstring :: "pystr \<Rightarrow> exn + element" where
  "ET_fromstring s =
     (case lex False [] s of
        None \<Rightarrow> Inl ParseError
      | Some ts \<Rightarrow> (case build [] None ts of None \<Rightarrow> Inl ParseError | Some e \<Rightarrow> Inr e))"

text \<open>
  The pattern \<open>(@[^@\s]+\s)\<close>. \<open>\s\<close> on a str is Unicode white space. A match at the
  head of a string is \<open>@\<close>, the longest non-empty run of characters that are neither
  \<open>@\<close> nor white space, and one white space character; the run cannot be shortened,
  since the character after a shorter run is not white space.
\<close>

definition is_space :: "nat \<Rightarrow> bool" where
  "is_space c =
     ((9 \<le> c \<and> c \<le> 13) \<or> (28 \<le> c \<and> c \<le> 32) \<or> c = 133 \<or> c = 160 \<or> c = 5760
      \<or> (8192 \<le> c \<and> c \<le> 8202) \<or> c = 8232 \<or> c = 8233 \<or> c = 8239 \<or> c = 8287
      \<or> c = 12288)"

definition run_char :: "nat \<Rightarrow> bool" where
  "run_char c = (c \<noteq> 64 \<and> \<not> is_space c)"

fun match_at :: "pystr \<Rightarrow> (pystr \<times> pystr) option" where
  "match_at [] = None"
| "match_at (c # cs) =
     (if c = 64
      then (case dropWhile run_char cs of
              [] \<Rightarrow> None
            | w # rest \<Rightarrow>
                if takeWhile run_char cs \<noteq> [] \<and> is_space w
                then Some (c # takeWhile run_char cs @ [w], rest)
                else None)
      else None)"

text \<open>\<open>re.search(regex, s) is not None\<close>.\<close>

fun re_search :: "pystr \<Rightarrow> bool" where
  "re_search [] = False"
| "re_search (c # cs) = (match_at (c # cs) \<noteq> None \<or> re_search cs)"

text \<open>
  \<open>re.split(regex, s)\<close>: with the one capturing group, the pieces between the matches
  alternate with the matched texts.
\<close>

function re_split_from :: "pystr \<Rightarrow> pystr \<Rightarrow> pystr list" where
  "re_split_from piece [] = [piece]"
| "re_split_from piece (c # cs) =
     (case match_at (c # cs) of
        Some (m, rest) \<Rightarrow> piece # m # re_split_from [] rest
      | None \<Rightarrow> re_split_from (piece @ [c]) cs)"
  by pat_completeness auto
termination
proof (relation "measure (\<lambda>(piece, s). length s)")
  show "wf (measure (\<lambda>(piece, s). length s))"
    by simp
next
  fix piece :: pystr and c cs x2 x y
  assume "match_at (c # cs) = Some x2" and "(x, y) = x2"
  then obtain w where "dropWhile run_char cs = w # y"
    by (auto split: if_splits list.splits)
  then have "Suc (length y) = length (dropWhile run_char cs)"
    by simp
  moreover have "length (dropWhile run_char cs) \<le> length cs"
    by (rule length_dropWhile_le)
  ultimately show "(([], y), (piece, c # cs)) \<in> measure (\<lambda>(piece, s). length s)"
    by simp
next
  fix piece :: pystr and c cs
  show "((piece @ [c], cs), (piece, c # cs)) \<in> measure (\<lambda>(piece, s). length s)"
    by simp
qed

definition re_split :: "pystr \<Rightarrow> pystr list" where
  "re_split s = re_split_from [] s"

section \<open>Raw messages, message segments and events\<close>

text \<open>
  \<open>WechatMessage\<close> (declared in a module that is not among the sources), with the fields
  that the handlers below read.
\<close>

record wechat_message =
  type :: int
  sender :: pystr
  wxid :: pystr
  message :: pystr
  extrainfo :: pystr
  timestamp :: int
  msgid :: int
  self :: pystr

text \<open>
  \<open>MessageSegment.text\<close>, \<open>MessageSegment.mention\<close> and \<open>MessageSegment.mention_all\<close>; a
  \<open>Message\<close> is the list of its segments, and \<open>append\<close> adds one at the end.
\<close>

datatype segment = Text pystr | Mention pystr | MentionAll

text \<open>
  \<open>str(message)\<close> of a \<open>Message\<close>: the class is not among the sources, so the rendering
  is kept symbolic, as the message it is the rendering of.
\<close>

datatype rendering = StrOfMessage "segment list"

datatype bot_self = BotSelf pystr

text \<open>
  The event classes, each with the keyword arguments of its constructor call in the
  order the source writes them:
  \<open>GroupMessageEvent(id, time, self, message_id, message, alt_message, user_id, group_id)\<close>,
  \<open>PrivateMessageEvent(id, time, self, message_id, message, alt_message, user_id)\<close>,
  \<open>GroupMessageDeleteEvent(id, time, self, message_id, group_id, user_id, operator_id)\<close>,
  \<open>PrivateMessageDeleteEvent(id, time, self, message_id)\<close>.
\<close>

datatype event =
    GroupMessageEvent pystr int bot_self pystr "segment list" rendering pystr pystr
  | PrivateMessageEvent pystr int bot_self pystr "segment list" rendering pystr
  | GroupMessageDeleteEvent pystr int bot_self "pystr option" pystr pystr pystr
  | PrivateMessageDeleteEvent pystr int bot_self "pystr option"

fun content :: "event \<Rightarrow> segment list" where
  "content (GroupMessageEvent i t s mid m alt u g) = m"
| "content (PrivateMessageEvent i t s mid m alt u) = m"
| "content _ = []"

fun is_delete_event :: "event \<Rightarrow> bool" where
  "is_delete_event (GroupMessageDeleteEvent i t s mid g u op) = True"
| "is_delete_event (PrivateMessageDeleteEvent i t s mid) = True"
| "is_delete_event _ = False"

section \<open>MessageHandler.handle_text\<close>

text \<open>
  The loop over \<open>enumerate(msg_list)\<close>: \<open>ms\<close> is \<open>msg_list[index:]\<close>, \<open>at_list\<close> the
  identifiers not yet popped, \<open>new_msg\<close> the message built so far.
\<close>

fun mention_loop :: "pystr list \<Rightarrow> pystr list \<Rightarrow> segment list \<Rightarrow> segment list" where
  "mention_loop [] at_list new_msg = new_msg"
| "mention_loop (one_msg # ms) at_list new_msg =
     (if \<not> re_search one_msg then mention_loop ms at_list (new_msg @ [Text one_msg])
      else
        (case at_list of
           [] \<Rightarrow> new_msg @ [Text (concat (one_msg # ms))]
         | at_one # at_rest \<Rightarrow>
             if at_one = ustr ''notify@all''
             then mention_loop ms at_rest (new_msg @ [MentionAll])
             else mention_loop ms at_rest (new_msg @ [Mention at_one])))"

text \<open>
  \<open>at_xml.text.split(",")\<close>, then the \<open>pop(0)\<close> of an empty first entry. \<open>split\<close> never
  returns the empty list.
\<close>

definition at_targets :: "pystr \<Rightarrow> pystr list" where
  "at_targets t = (case split 44 t of [] \<Rightarrow> [] | a # rest \<Rightarrow> if a = [] then rest else a # rest)"

text \<open>
  The constructor call at the end of the mention branch. Its keyword arguments are
  evaluated in order; \<open>alt_message=str(message)\<close> reads the local variable \<open>message\<close>,
  given here as \<open>None\<close> when no assignment to it has been executed.
\<close>

definition group_event_of ::
  "pystr \<Rightarrow> wechat_message \<Rightarrow> segment list \<Rightarrow> segment list option \<Rightarrow> exn + event" where
  "group_event_of event_id msg new_msg local_message =
     (case local_message of
        None \<Rightarrow> Inl UnboundLocalError
      | Some m \<Rightarrow>
          Inr (GroupMessageEvent event_id (timestamp msg) (BotSelf (self msg))
                 (str_int (msgid msg)) new_msg (StrOfMessage m) (wxid msg) (sender msg)))"

text \<open>
  \<open>handle_text\<close>; \<open>event_id\<close> is the value of \<open>str(uuid4())\<close>. In the branch without
  \<open>atuserlist\<close> the local \<open>message\<close> is assigned; in the mention branch it never is.
\<close>

definition handle_text ::
  "(pystr \<Rightarrow> exn + element) \<Rightarrow> pystr \<Rightarrow> wechat_message \<Rightarrow> exn + event" where
  "handle_text fromstring event_id msg =
     (case fromstring (extrainfo msg) of
        Inl e \<Rightarrow> Inl e
      | Inr xml_obj \<Rightarrow>
          (case find_path [ustr ''atuserlist''] xml_obj of
             None \<Rightarrow>
               if contains (ustr ''@chatroom'') (sender msg)
               then Inr (GroupMessageEvent event_id (timestamp msg) (BotSelf (self msg))
                           (str_int (msgid msg)) [Text (message msg)]
                           (StrOfMessage [Text (message msg)]) (wxid msg) (sender msg))
               else Inr (PrivateMessageEvent event_id (timestamp msg) (BotSelf (self msg))
                           (str_int (msgid msg)) [Text (message msg)]
                           (StrOfMessage [Text (message msg)]) (wxid msg))
           | Some at_xml \<Rightarrow>
               (case text_of at_xml of
                  None \<Rightarrow> Inl AttributeError
                | Some t \<Rightarrow>
                    group_event_of event_id msg
                      (mention_loop (re_split (message msg)) (at_targets t) []) None)))"

section \<open>The handler registries and MessageHandler.handle_message\<close>

text \<open>
  The objects that are passed to a registered function: the \<open>MessageHandler\<close> instance,
  a raw message, an XML element. Reading a field of a raw message from anything else
  raises \<open>AttributeError\<close>.
\<close>

datatype pyarg = AHandler | AMessage wechat_message | AElement element

fun as_message :: "pyarg \<Rightarrow> exn + wechat_message" where
  "as_message (AMessage m) = Inr m"
| "as_message _ = Inl AttributeError"

text \<open>
  A function object as a registry stores it: whether it was defined with \<open>async def\<close>,
  the number of its positional parameters, and its body over the arguments. A call with
  another number of arguments raises \<open>TypeError\<close> before the body runs (for a coroutine
  function too: the arguments are bound when it is called).

  \<open>py_call\<close> is the call as \<open>handle_message\<close> makes it: \<open>handler(msg)\<close> for a plain
  function, \<open>await handler(msg)\<close> for a coroutine function; the body runs in both.
  \<open>call_unawaited\<close> is the call \<open>handler(msg, xml_obj)\<close> of \<open>handle_group_sys\<close>, which
  is never awaited: for a coroutine function it gives the coroutine object and the body
  does not run.
\<close>

record pyfunc =
  coroutine :: bool
  nparams :: nat
  run :: "pyarg list \<Rightarrow> exn + event option"

definition py_call :: "pyfunc \<Rightarrow> pyarg list \<Rightarrow> exn + event option" where
  "py_call f args = (if length args = nparams f then run f args else Inl TypeError)"

datatype retval = Result "event option" | CoroutineObject

definition call_unawaited :: "pyfunc \<Rightarrow> pyarg list \<Rightarrow> exn + retval" where
  "call_unawaited f args =
     (if length args = nparams f
      then (if coroutine f then Inr CoroutineObject
            else (case run f args of Inl e \<Rightarrow> Inl e | Inr r \<Rightarrow> Inr (Result r)))
      else Inl TypeError)"

text \<open>
  \<open>add_handler(_tpye)(func)\<close> stores the function under the tag. The decorator is applied
  in the class body, so what is stored is the plain function with its parameter \<open>self\<close>,
  not a bound method.
\<close>

definition add_handler :: "int \<Rightarrow> pyfunc \<Rightarrow> (int \<Rightarrow> pyfunc option) \<Rightarrow> (int \<Rightarrow> pyfunc option)" where
  "add_handler tp func HANDLE_DICT = HANDLE_DICT(tp \<mapsto> func)"

definition handle_message :: "(int \<Rightarrow> pyfunc option) \<Rightarrow> wechat_message \<Rightarrow> exn + event option" where
  "handle_message HANDLE_DICT msg =
     (case HANDLE_DICT (type msg) of
        None \<Rightarrow> Inr None
      | Some handler \<Rightarrow>
          if coroutine handler then py_call handler [AMessage msg]
          else py_call handler [AMessage msg])"

text \<open>The function \<open>handle_text(self, msg)\<close> as an object.\<close>

definition handle_text_func :: "(pystr \<Rightarrow> exn + element) \<Rightarrow> pystr \<Rightarrow> pyfunc" where
  "handle_text_func fromstring event_id =
     \<lparr>coroutine = False, nparams = 2,
      run = (\<lambda>args. case args of
               [this, m] \<Rightarrow>
                 (case as_message m of
                    Inl e \<Rightarrow> Inl e
                  | Inr msg \<Rightarrow>
                      (case handle_text fromstring event_id msg of
                         Inl e \<Rightarrow> Inl e
                       | Inr ev \<Rightarrow> Inr (Some ev)))
             | _ \<Rightarrow> Inl TypeError)\<rparr>"

section \<open>MessageHandler.handle_group_sys\<close>

text \<open>
  \<open>GroupSysMsgHandler.event(cls, msg)\<close>: \<open>add_group_sys_handler\<close> is applied before
  \<open>classmethod\<close>, so the list holds the plain function of two parameters. Both of its
  branches return \<open>None\<close>. The literal is the red packet notice, by its code points.
\<close>

definition event_func :: pyfunc where
  "event_func =
     \<lparr>coroutine = False, nparams = 2,
      run = (\<lambda>args. case args of
               [cls, m] \<Rightarrow>
                 (case as_message m of
                    Inl e \<Rightarrow> Inl e
                  | Inr msg \<Rightarrow>
                      if message msg \<noteq> [25910, 21040, 32418, 21253, 65292, 35831, 22312,
                                          25163, 26426, 19978, 26597, 30475]
                      then Inr None
                      else Inr None)
             | _ \<Rightarrow> Inl TypeError)\<rparr>"

definition GROUP_SYS_HANDLERS :: "pyfunc list" where
  "GROUP_SYS_HANDLERS = [event_func]"

text \<open>
  The loop \<open>for handler in GROUP_SYS_HANDLERS\<close> with its \<open>break\<close>; \<open>result\<close> is the
  variable of that name.
\<close>

fun group_sys_loop ::
  "pyfunc list \<Rightarrow> wechat_message \<Rightarrow> element \<Rightarrow> retval \<Rightarrow> exn + retval" where
  "group_sys_loop [] msg xml_obj result = Inr result"
| "group_sys_loop (handler # hs) msg xml_obj result =
     (case call_unawaited handler [AMessage msg, AElement xml_obj] of
        Inl e \<Rightarrow> Inl e
      | Inr r \<Rightarrow> if r \<noteq> Result None then Inr r else group_sys_loop hs msg xml_obj r)"

text \<open>
  How a block of statements ends: with a \<open>return\<close>, with an exception, or by running
  into the statement after it.
\<close>

datatype flow = Return retval | Raise exn | Next

text \<open>The statements of \<open>handle_group_sys\<close> up to and including \<open>return result\<close>.\<close>

definition group_sys_dispatch ::
  "(pystr \<Rightarrow> exn + element) \<Rightarrow> pyfunc list \<Rightarrow> wechat_message \<Rightarrow> flow" where
  "group_sys_dispatch fromstring handlers msg =
     (case fromstring (message msg) of
        Inl e \<Rightarrow> Raise e
      | Inr xml_obj \<Rightarrow>
          (case group_sys_loop handlers msg xml_obj (Result None) of
             Inl e \<Rightarrow> Raise e
           | Inr result \<Rightarrow> Return result))"

text \<open>The statements after it: the recall branch.\<close>

definition recall_branch ::
  "(pystr \<Rightarrow> exn + element) \<Rightarrow> pystr \<Rightarrow> wechat_message \<Rightarrow> exn + event option" where
  "recall_branch fromstring event_id msg =
     (case fromstring (message msg) of
        Inl e \<Rightarrow> Inl e
      | Inr xml_obj \<Rightarrow>
          (case find_path [ustr ''revokemsg'', ustr ''newmsgid''] xml_obj of
             None \<Rightarrow> Inr None
           | Some msg_obj \<Rightarrow>
               if contains (ustr ''@chatroom'') (sender msg)
               then Inr (Some (GroupMessageDeleteEvent event_id (timestamp msg)
                                 (BotSelf (self msg)) (text_of msg_obj) (sender msg)
                                 (wxid msg) []))
               else Inr (Some (PrivateMessageDeleteEvent event_id (timestamp msg)
                                 (BotSelf (self msg)) (text_of msg_obj)))))"

definition handle_group_sys ::
  "(pystr \<Rightarrow> exn + element) \<Rightarrow> pystr \<Rightarrow> pyfunc list \<Rightarrow> wechat_message \<Rightarrow> exn + retval" where
  "handle_group_sys fromstring event_id handlers msg =
     (case group_sys_dispatch fromstring handlers msg of
        Return result \<Rightarrow> Inr result
      | Raise e \<Rightarrow> Inl e
      | Next \<Rightarrow>
          (case recall_branch fromstring event_id msg of
             Inl e \<Rightarrow> Inl e
           | Inr r \<Rightarrow> Inr (Result r)))"

section \<open>WeChatManager: the access token check and the WebSocket handler\<close>

text \<open>
  \<open>Config.onebot_access_token\<close> is a str or \<open>None\<close>; \<open>None\<close> and the empty string are
  the values that count as false.
\<close>

record config =
  onebot_access_token :: "pystr option"

fun truthy_str :: "pystr option \<Rightarrow> bool" where
  "truthy_str None = False"
| "truthy_str (Some s) = (s \<noteq> [])"

record http_request =
  headers :: "pystr \<Rightarrow> pystr option"

datatype response = Response int pystr

text \<open>
  \<open>_check_access_token\<close>. The helper \<open>get_auth_bearer\<close> lives in a module that is not
  among the sources and is a parameter. The warning that is logged is not modelled.
\<close>

definition check_access_token ::
  "(pystr option \<Rightarrow> pystr option) \<Rightarrow> config \<Rightarrow> http_request \<Rightarrow> response option" where
  "check_access_token get_auth_bearer cfg req =
     (let token = get_auth_bearer (headers req (ustr ''Authorization''));
          access_token = onebot_access_token cfg
      in if truthy_str access_token \<and> access_token \<noteq> token
         then Some (Response 403
                (if truthy_str token then ustr ''Authorization Header is invalid''
                 else ustr ''Missing Authorization Header''))
         else None)"

text \<open>
  Modelled from the spec: \<open>get_auth_bearer\<close> of the module \<open>utils\<close>, which is missing; the
  spec speaks of an optional header \<open>Authorization: Bearer <token>\<close>. It is used for
  concrete instances only.
\<close>

definition bearer_of_header :: "pystr option \<Rightarrow> pystr option" where
  "bearer_of_header h =
     (case h of
        None \<Rightarrow> None
      | Some v \<Rightarrow> if starts_with (ustr ''Bearer '') v then Some (drop 7 v) else None)"

text \<open>
  A WebSocket: the upgrade request, the calls of \<open>close\<close> made on it, and what the
  coming calls of \<open>receive\<close> will do, in order.
\<close>

datatype frame = TextFrame pystr | BinaryFrame "nat list"

datatype recv = Data frame | RecvRaises exn

datatype close_call = CloseWith int pystr | CloseDefault

record websocket =
  ws_request :: http_request
  closes :: "close_call list"
  inbox :: "recv list"

text \<open>
  What \<open>_handle_ws\<close> uses and the sources do not contain: \<open>get_auth_bearer\<close>; the
  driver's \<open>ws_connect\<close> and \<open>ws_disconnect\<close> over a driver state \<open>'d\<close>, which holds the
  sessions that events are sent to; the decoding of a frame (\<open>json.loads\<close> for a str,
  \<open>msgpack.unpackb\<close> otherwise); \<open>json_to_event\<close>, whose event models and whose helper
  \<open>flattened_to_nested\<close> are not among the sources; and the evaluation of
  \<open>asyncio.create_task(self.handle_event(event))\<close>, \<open>handle_event\<close> not being defined
  in the class as given.
\<close>

record ('d, 'j, 'ev) collaborators =
  get_auth_bearer :: "pystr option \<Rightarrow> pystr option"
  ws_connect :: "'d \<Rightarrow> websocket \<Rightarrow> int \<times> 'd"
  ws_disconnect :: "'d \<Rightarrow> int \<Rightarrow> 'd"
  decode :: "frame \<Rightarrow> exn + 'j"
  json_to_event :: "'j \<Rightarrow> exn + 'ev option"
  create_task :: "'ev \<Rightarrow> exn option"

text \<open>
  The state a handler works on: the driver, the socket, and the events for which a task
  \<open>handle_event(event)\<close> was created.
\<close>

record ('d, 'ev) gateway =
  driver :: 'd
  socket :: websocket
  tasks :: "'ev list"

text \<open>
  The loop \<open>while True: data = await websocket.receive() ...\<close> inside its \<open>try\<close>. It
  ends when something is raised: \<open>WebSocketClosed\<close> and every other \<open>Exception\<close> are
  caught and logged, anything else escapes. The result is \<open>None\<close> when the inbox runs
  out and the loop waits for ever; otherwise the exception that escapes, if any, with
  the inbox left and the tasks created.
\<close>

fun receive_loop ::
  "('d, 'j, 'ev) collaborators \<Rightarrow> recv list \<Rightarrow> 'ev list
     \<Rightarrow> (exn option \<times> recv list \<times> 'ev list) option" where
  "receive_loop env [] ts = None"
| "receive_loop env (RecvRaises e # rest) ts =
     Some (if is_Exception e then None else Some e, rest, ts)"
| "receive_loop env (Data d # rest) ts =
     (case decode env d of
        Inl e \<Rightarrow> Some (if is_Exception e then None else Some e, rest, ts)
      | Inr raw_data \<Rightarrow>
          (case json_to_event env raw_data of
             Inl e \<Rightarrow> Some (if is_Exception e then None else Some e, rest, ts)
           | Inr None \<Rightarrow> receive_loop env rest ts
           | Inr (Some ev) \<Rightarrow>
               (case create_task env ev of
                  Some e \<Rightarrow> Some (if is_Exception e then None else Some e, rest, ts)
                | None \<Rightarrow> receive_loop env rest (ts @ [ev]))))"

text \<open>
  \<open>_handle_ws\<close>: \<open>None\<close> when it never returns, otherwise the exception that escapes it,
  if any, and the state it leaves. The calls of \<open>close\<close> are taken to succeed.
\<close>

definition handle_ws ::
  "('d, 'j, 'ev) collaborators \<Rightarrow> config \<Rightarrow> ('d, 'ev) gateway
     \<Rightarrow> (exn option \<times> ('d, 'ev) gateway) option" where
  "handle_ws env cfg g =
     (case check_access_token (get_auth_bearer env) cfg (ws_request (socket g)) of
        Some (Response code reason) \<Rightarrow>
          Some (None, g\<lparr>socket := (socket g)\<lparr>closes := closes (socket g) @ [CloseWith 1008 reason]\<rparr>\<rparr>)
      | None \<Rightarrow>
          (case ws_connect env (driver g) (socket g) of
             (seq, d) \<Rightarrow>
               (case receive_loop env (inbox (socket g)) (tasks g) of
                  None \<Rightarrow> None
                | Some (escaping, rest, ts) \<Rightarrow>
                    Some (escaping,
                          \<lparr>driver = ws_disconnect env d seq,
                           socket = (socket g)\<lparr>closes := closes (socket g) @ [CloseDefault],
                                               inbox := rest\<rparr>,
                           tasks = ts\<rparr>))))"

section \<open>Concrete inputs\<close>

text \<open>
  A capability on which no call has been made yet, whose \<open>get_self_info\<close> returns
  \<open>{"WxId": "abc", "Name": "Bot"}\<close> and whose other methods return \<open>None\<close>.
\<close>

definition bot_capability :: com_api where
  "bot_capability =
     \<lparr>answer = (\<lambda>history cl.
                 if fst cl = ustr ''get_self_info''
                 then Inr (VDict [(ustr ''WxId'', VStr (ustr ''abc'')),
                                  (ustr ''Name'', VStr (ustr ''Bot''))])
                 else Inr VNone),
      calls = []\<rparr>"

text \<open>A capability whose every method raises the given exception.\<close>

definition raising_capability :: "exn \<Rightarrow> com_api" where
  "raising_capability e = \<lparr>answer = (\<lambda>history cl. Inl e), calls = []\<rparr>"

text \<open>
  The raw message of the scenario of C6; the fields that the scenario leaves open are
  chosen here.
\<close>

definition alice_message :: wechat_message where
  "alice_message =
     \<lparr>type = 1, sender = ustr ''123@chatroom'', wxid = ustr ''wx_bob'',
      message = ustr ''@Alice hello'',
      extrainfo = ustr ''<atuserlist>wx_alice</atuserlist>'',
      timestamp = 1700000000, msgid = 42, self = ustr ''wx_bot''\<rparr>"

text \<open>Two mention markers in the text, one identifier in the attachment.\<close>

definition two_mentions_message :: wechat_message where
  "two_mentions_message =
     \<lparr>type = 1, sender = ustr ''123@chatroom'', wxid = ustr ''wx_bob'',
      message = ustr ''@a @b hi'',
      extrainfo = ustr ''<msgsource><atuserlist>wx_a</atuserlist></msgsource>'',
      timestamp = 1700000000, msgid = 43, self = ustr ''wx_bot''\<rparr>"

text \<open>A text message whose attachment is not well-formed XML.\<close>

definition malformed_message :: wechat_message where
  "malformed_message =
     \<lparr>type = 1, sender = ustr ''123@chatroom'', wxid = ustr ''wx_bob'',
      message = ustr ''hello'', extrainfo = ustr ''<msgsource>'',
      timestamp = 1700000000, msgid = 44, self = ustr ''wx_bot''\<rparr>"

text \<open>A registry in which \<open>handle_text\<close> has been registered under the tag 1.\<close>

definition text_registry :: "int \<Rightarrow> pyfunc option" where
  "text_registry = add_handler 1 (handle_text_func ET_fromstring (ustr ''id-1'')) (\<lambda>tp. None)"

section \<open>Concrete inputs for the group system handler and the gateway\<close>

text \<open>A recall notice.\<close>

definition recall_message :: wechat_message where
  "recall_message =
     \<lparr>type = 10002, sender = ustr ''123@chatroom'', wxid = ustr ''wx_bob'',
      message = ustr ''<sysmsg><revokemsg><newmsgid>77</newmsgid></revokemsg></sysmsg>'',
      extrainfo = [], timestamp = 1700000000, msgid = 45, self = ustr ''wx_bot''\<rparr>"

text \<open>
  Modelled from the spec: a driver (the module is missing) under which every accepted
  session gets the next sequence number and is kept until it is disconnected. Frames are
  not decoded here. It is used for concrete instances only.
\<close>

definition list_driver ::
  "(nat \<times> (int \<times> websocket) list, pyval, pyval) collaborators" where
  "list_driver =
     \<lparr>get_auth_bearer = bearer_of_header,
      ws_connect = (\<lambda>d ws. (int (fst d), (Suc (fst d), snd d @ [(int (fst d), ws)]))),
      ws_disconnect = (\<lambda>d seq. (fst d, filter (\<lambda>s. fst s \<noteq> seq) (snd d))),
      decode = (\<lambda>f. Inl (OtherException (ustr ''ValueError''))),
      json_to_event = (\<lambda>j. Inr None),
      create_task = (\<lambda>ev. None)\<rparr>"

definition secret_config :: config where
  "secret_config = \<lparr>onebot_access_token = Some (ustr ''s3cret'')\<rparr>"

definition open_config :: config where
  "open_config = \<lparr>onebot_access_token = None\<rparr>"

text \<open>An upgrade request with the given \<open>Authorization\<close> header, or without one.\<close>

definition upgrade_request :: "pystr option \<Rightarrow> http_request" where
  "upgrade_request h = \<lparr>headers = (\<lambda>name. if name = ustr ''Authorization'' then h else None)\<rparr>"

definition fresh_gateway ::
  "pystr option \<Rightarrow> (nat \<times> (int \<times> websocket) list, pyval) gateway" where
  "fresh_gateway h =
     \<lparr>driver = (0, []),
      socket = \<lparr>ws_request = upgrade_request h, closes = [], inbox = []\<rparr>,
      tasks = []\<rparr>"

section \<open>The action dispatcher: theorems\<close>

text \<open>
  C1, as amended. For every request whose action name is not an attribute of the manager
  object, \<open>request\<close> raises \<open>AttributeError\<close>: no response is produced, and the
  capability is left as it was, no call having been made on it.
\<close>

theorem request_unknown_name_raises:
  assumes "this (action req) = None"
  shows "request this req c = Some (Inl AttributeError, c)"
  using assms by (simp add: request_def)

theorem request_unknown_name_raises_witness:
  "ActionManager (action \<lparr>action = ustr ''send_msg'', params = []\<rparr>) = None
   \<and> request ActionManager \<lparr>action = ustr ''send_msg'', params = []\<rparr> bot_capability
       = Some (Inl AttributeError, bot_capability)"
proof -
  have unknown: "ActionManager (action \<lparr>action = ustr ''send_msg'', params = []\<rparr>) = None"
    by (simp add: ActionManager_def ActionManager_dict_def ustr_def)
  from request_unknown_name_raises
         [of ActionManager "\<lparr>action = ustr ''send_msg'', params = []\<rparr>" bot_capability] unknown
  show ?thesis by simp
qed

text \<open>
  C1 as stated fails. The name \<open>delete_universe\<close> is not a declared action, and the
  request raises instead of returning a not-found response. The name \<open>close\<close> is not a
  declared action either, and the request calls \<open>close\<close> on the capability and answers
  with status 200.
\<close>

theorem request_undeclared_counterexample:
  "ustr ''delete_universe'' \<notin> set declared_actions
   \<and> request ActionManager \<lparr>action = ustr ''delete_universe'', params = []\<rparr> bot_capability
       = Some (Inl AttributeError, bot_capability)
   \<and> ustr ''close'' \<notin> set declared_actions
   \<and> request ActionManager \<lparr>action = ustr ''close'', params = []\<rparr> bot_capability
       = Some (Inr (ActionResponse
                      [(ustr ''status'', VInt 200),
                       (ustr ''msg'', VStr [35831, 27714, 25104, 21151]),
                       (ustr ''data'', VNone)]),
               bot_capability\<lparr>calls := [(ustr ''close'', [])]\<rparr>)"
  by (simp add: request_def ActionManager_def ActionManager_dict_def declared_actions_def
        call_kwargs_def close_def com_call_def bot_capability_def ustr_def)

text \<open>
  C2, as amended. When the bound operation returns, the response has status 200 and its
  data is the value returned. When the bound operation raises an exception that is an
  instance of \<open>Exception\<close>, the response has status 500 with empty data and nothing
  escapes. (An exception outside \<open>Exception\<close> is not caught.)
\<close>

theorem request_wraps_outcome:
  assumes "this (action req) = Some func"
    and "call_kwargs func (params req) c = Some (outcome, c')"
    and "case outcome of Inl e \<Rightarrow> is_Exception e | Inr r \<Rightarrow> True"
  shows "request this req c =
           Some (Inr (case outcome of
                        Inr r \<Rightarrow>
                          ActionResponse
                            [(ustr ''status'', VInt 200),
                             (ustr ''msg'', VStr [35831, 27714, 25104, 21151]),
                             (ustr ''data'', r)]
                      | Inl e \<Rightarrow>
                          ActionResponse
                            [(ustr ''status'', VInt 500),
                             (ustr ''msg'', VStr [20869, 37096, 26381, 21153, 38169, 35823,
                                                  46, 46, 46]),
                             (ustr ''data'', VDict [])]), c')"
  using assms by (cases outcome) (simp_all add: request_def)

theorem request_wraps_outcome_witness:
  "request ActionManager \<lparr>action = ustr ''get_friend_list'', params = []\<rparr> bot_capability
     = Some (Inr (ActionResponse
                    [(ustr ''status'', VInt 200),
                     (ustr ''msg'', VStr [35831, 27714, 25104, 21151]),
                     (ustr ''data'', ok_response VNone)]),
             bot_capability\<lparr>calls := [(ustr ''get_friend_list'', [])]\<rparr>)
   \<and> request ActionManager \<lparr>action = ustr ''get_friend_list'', params = []\<rparr>
         (raising_capability (OtherException (ustr ''COMError'')))
     = Some (Inr (ActionResponse
                    [(ustr ''status'', VInt 500),
                     (ustr ''msg'', VStr [20869, 37096, 26381, 21153, 38169, 35823,
                                          46, 46, 46]),
                     (ustr ''data'', VDict [])]),
             (raising_capability (OtherException (ustr ''COMError'')))
               \<lparr>calls := [(ustr ''get_friend_list'', [])]\<rparr>)"
proof -
  let ?req = "\<lparr>action = ustr ''get_friend_list'', params = []\<rparr>"
  let ?func = "Method \<lparr>required = [], optional = [], body = (\<lambda>a. get_friend_list)\<rparr>"
  let ?bad = "raising_capability (OtherException (ustr ''COMError''))"
  have bound: "ActionManager (action ?req) = Some ?func"
    by (simp add: ActionManager_def ActionManager_dict_def ustr_def)
  have returns: "call_kwargs ?func (params ?req) bot_capability
                   = Some (Inr (ok_response VNone),
                           bot_capability\<lparr>calls := [(ustr ''get_friend_list'', [])]\<rparr>)"
    by (simp add: call_kwargs_def get_friend_list_def com_call_def bot_capability_def ustr_def)
  have raises: "call_kwargs ?func (params ?req) ?bad
                  = Some (Inl (OtherException (ustr ''COMError'')),
                          ?bad\<lparr>calls := [(ustr ''get_friend_list'', [])]\<rparr>)"
    by (simp add: call_kwargs_def get_friend_list_def com_call_def raising_capability_def)
  have "request ActionManager ?req bot_capability
          = Some (Inr (ActionResponse
                         [(ustr ''status'', VInt 200),
                          (ustr ''msg'', VStr [35831, 27714, 25104, 21151]),
                          (ustr ''data'', ok_response VNone)]),
                  bot_capability\<lparr>calls := [(ustr ''get_friend_list'', [])]\<rparr>)"
    using request_wraps_outcome [of ActionManager ?req ?func bot_capability, OF bound returns]
    by simp
  moreover
  have "request ActionManager ?req ?bad
          = Some (Inr (ActionResponse
                         [(ustr ''status'', VInt 500),
                          (ustr ''msg'', VStr [20869, 37096, 26381, 21153, 38169, 35823,
                                               46, 46, 46]),
                          (ustr ''data'', VDict [])]),
                  ?bad\<lparr>calls := [(ustr ''get_friend_list'', [])]\<rparr>)"
    using request_wraps_outcome [of ActionManager ?req ?func ?bad, OF bound raises]
    by simp
  ultimately show ?thesis by simp
qed

text \<open>
  The other side of the guard: an exception of the bound operation that is not an
  instance of \<open>Exception\<close> leaves \<open>request\<close>, and an operation that never returns
  keeps \<open>request\<close> from returning.
\<close>

lemma request_base_exception_escapes:
  "this (action req) = Some func \<Longrightarrow> call_kwargs func (params req) c = Some (Inl e, c') \<Longrightarrow>
     \<not> is_Exception e \<Longrightarrow> request this req c = Some (Inl e, c')"
  by (simp add: request_def)

lemma request_never_returns:
  "this (action req) = Some func \<Longrightarrow> call_kwargs func (params req) c = None \<Longrightarrow>
     request this req c = None"
  by (simp add: request_def)

text \<open>
  C2 as stated fails: an exception that is not an instance of \<open>Exception\<close> escapes.
  \<open>init\<close> calls \<open>exit(0)\<close> when the capability's \<open>init\<close> returns \<open>None\<close>, and the
  \<open>SystemExit\<close> leaves \<open>request\<close>; so does a \<open>KeyboardInterrupt\<close> raised while
  \<open>get_self_info\<close> calls the capability.
\<close>

theorem request_exception_escapes_counterexample:
  "request ActionManager \<lparr>action = ustr ''init'', params = []\<rparr>
       \<lparr>answer = (\<lambda>history cl. Inr VNone), calls = []\<rparr>
     = Some (Inl (SystemExit 0),
             \<lparr>answer = (\<lambda>history cl. Inr VNone), calls = [(ustr ''init'', [])]\<rparr>)
   \<and> request ActionManager \<lparr>action = ustr ''get_self_info'', params = []\<rparr>
         (raising_capability KeyboardInterrupt)
     = Some (Inl KeyboardInterrupt,
             (raising_capability KeyboardInterrupt)\<lparr>calls := [(ustr ''get_self_info'', [])]\<rparr>)"
  by (simp add: request_def ActionManager_def ActionManager_dict_def call_kwargs_def init_def
        get_self_info_def com_call_def raising_capability_def ustr_def)

text \<open>
  C3. The request \<open>get_self_info\<close> against the capability that returns
  \<open>{"WxId": "abc", "Name": "Bot"}\<close>: the action builds the response with status
  \<open>ok\<close> and the three fields, and \<open>request\<close> wraps that response once more, as the
  data of a response with status 200.
\<close>

theorem request_get_self_info_wrapped_twice:
  "request ActionManager \<lparr>action = ustr ''get_self_info'', params = []\<rparr> bot_capability
     = Some (Inr (ActionResponse
                    [(ustr ''status'', VInt 200),
                     (ustr ''msg'', VStr [35831, 27714, 25104, 21151]),
                     (ustr ''data'',
                        ActionResponse
                          [(ustr ''status'', VStr (ustr ''ok'')),
                           (ustr ''retcode'', VInt 200),
                           (ustr ''data'',
                              VDict [(ustr ''user_id'', VStr (ustr ''abc'')),
                                     (ustr ''user_name'', VStr (ustr ''Bot'')),
                                     (ustr ''user_displayname'', VStr [])])])]),
             bot_capability\<lparr>calls := [(ustr ''get_self_info'', [])]\<rparr>)"
  by (simp add: request_def ActionManager_def ActionManager_dict_def call_kwargs_def
        get_self_info_def com_call_def bot_capability_def ok_response_def ustr_def)

section \<open>The event normalizer: theorems\<close>

text \<open>
  C7. For every raw message whose type has no entry in the registry, \<open>handle_message\<close>
  returns \<open>None\<close>: no event, and nothing is raised.
\<close>

theorem handle_message_unregistered:
  assumes "HANDLE_DICT (type msg) = None"
  shows "handle_message HANDLE_DICT msg = Inr None"
  using assms by (simp add: handle_message_def)

theorem handle_message_unregistered_witness:
  "text_registry (type (alice_message\<lparr>type := 49\<rparr>)) = None
   \<and> handle_message text_registry (alice_message\<lparr>type := 49\<rparr>) = Inr None"
proof -
  have unregistered: "text_registry (type (alice_message\<lparr>type := 49\<rparr>)) = None"
    by (simp add: text_registry_def add_handler_def)
  from handle_message_unregistered [of text_registry "alice_message\<lparr>type := 49\<rparr>"] unregistered
  show ?thesis by simp
qed

text \<open>What \<open>handle_text\<close> does when the attachment does not parse: the error of the parser leaves it.\<close>

lemma handle_text_parse_error:
  "fromstring (extrainfo msg) = Inl e \<Longrightarrow> handle_text fromstring event_id msg = Inl e"
  by (simp add: handle_text_def)

text \<open>
  Every function that the source registers with \<open>add_handler\<close> has the two parameters
  \<open>self\<close> and \<open>msg\<close>; \<open>handle_message\<close> calls it with one argument.
\<close>

lemma handle_message_two_parameters:
  "HANDLE_DICT (type msg) = Some handler \<Longrightarrow> nparams handler = 2 \<Longrightarrow>
     handle_message HANDLE_DICT msg = Inl TypeError"
  by (simp add: handle_message_def py_call_def)

text \<open>
  C4. The raw message has a registered type and a well-formed attachment, and
  \<open>handle_message\<close> raises \<open>TypeError\<close>: the registered function is the plain function
  \<open>handle_text(self, msg)\<close> and it is called as \<open>handler(msg)\<close>. The same happens with
  the attachment that is not well-formed. Called with both of its arguments the handler
  returns the event for the first message, and raises the \<open>ParseError\<close> for the
  second.
\<close>

theorem handle_message_registered_type_error:
  "text_registry (type alice_message) = Some (handle_text_func ET_fromstring (ustr ''id-1''))
   \<and> handle_message text_registry alice_message = Inl TypeError
   \<and> handle_message text_registry malformed_message = Inl TypeError
   \<and> py_call (handle_text_func ET_fromstring (ustr ''id-1''))
         [AHandler, AMessage alice_message]
       = Inr (Some (GroupMessageEvent (ustr ''id-1'') 1700000000 (BotSelf (ustr ''wx_bot''))
                      (ustr ''42'') [Text (ustr ''@Alice hello'')]
                      (StrOfMessage [Text (ustr ''@Alice hello'')])
                      (ustr ''wx_bob'') (ustr ''123@chatroom'')))
   \<and> py_call (handle_text_func ET_fromstring (ustr ''id-1''))
         [AHandler, AMessage malformed_message] = Inl ParseError"
  by (simp add: text_registry_def add_handler_def handle_message_def py_call_def
        handle_text_func_def handle_text_def alice_message_def malformed_message_def
        ET_fromstring_def text_token_def is_name_start_def is_name_char_def is_data_char_def
        starts_with_def str_int_def ustr_def)

text \<open>
  The degradation path of the loop: at a marker with no identifier left, the rest of the
  split is joined and kept as one text segment.
\<close>

lemma mention_loop_out_of_identifiers:
  "re_search one_msg \<Longrightarrow>
     mention_loop (one_msg # ms) [] new_msg = new_msg @ [Text (concat (one_msg # ms))]"
  by simp

text \<open>The mention branch of \<open>handle_text\<close> never returns an event.\<close>

lemma handle_text_mention_branch_raises:
  assumes "fromstring (extrainfo msg) = Inr xml_obj"
    and "find_path [ustr ''atuserlist''] xml_obj = Some at_xml"
  shows "handle_text fromstring event_id msg
           = Inl (if text_of at_xml = None then AttributeError else UnboundLocalError)"
  using assms by (cases "text_of at_xml") (simp_all add: handle_text_def group_event_of_def)

text \<open>
  C5. A text with two markers and an attachment with one identifier: the loop builds the
  message in which the text from the second marker on is kept as a text segment, and
  the construction of the event then reads the local variable \<open>message\<close>, which is not
  assigned in this branch: \<open>handle_text\<close> raises \<open>UnboundLocalError\<close>.
\<close>

theorem handle_text_mentions_unbound_local:
  "mention_loop (re_split (message two_mentions_message)) (at_targets (ustr ''wx_a'')) []
     = [Text [], Mention (ustr ''wx_a''), Text [], Text (ustr ''@b hi'')]
   \<and> handle_text ET_fromstring (ustr ''id-1'') two_mentions_message = Inl UnboundLocalError"
  by (simp add: handle_text_def group_event_of_def two_mentions_message_def ET_fromstring_def
        text_token_def is_name_start_def is_name_char_def is_data_char_def re_split_def run_char_def
        is_space_def at_targets_def split_def ustr_def)

text \<open>
  C6, as amended. \<open>handle_text\<close> on the raw message of the scenario returns a group
  message event whose content is the single segment \<open>text("@Alice hello")\<close>: the root
  of the attachment is \<open>atuserlist\<close> itself, and \<open>find("./atuserlist")\<close> looks among
  the children of the root.
\<close>

theorem handle_text_scenario:
  "handle_text ET_fromstring event_id alice_message
     = Inr (GroupMessageEvent event_id 1700000000 (BotSelf (ustr ''wx_bot'')) (ustr ''42'')
              [Text (ustr ''@Alice hello'')] (StrOfMessage [Text (ustr ''@Alice hello'')])
              (ustr ''wx_bob'') (ustr ''123@chatroom''))"
  by (simp add: handle_text_def alice_message_def ET_fromstring_def text_token_def
        is_name_start_def is_name_char_def is_data_char_def starts_with_def str_int_def
        ustr_def)

text \<open>
  C6 as stated fails: the content of the event is not the two segments
  \<open>mention(wx_alice)\<close>, \<open>text(" hello")\<close>.
\<close>

theorem handle_text_scenario_counterexample:
  "map_sum (\<lambda>e. e) content (handle_text ET_fromstring (ustr ''id-1'') alice_message)
     \<noteq> Inr [Mention (ustr ''wx_alice''), Text (ustr '' hello'')]"
  by (simp add: handle_text_def alice_message_def ET_fromstring_def text_token_def
        is_name_start_def is_name_char_def is_data_char_def starts_with_def str_int_def
        ustr_def)

text \<open>
  The statements of \<open>handle_group_sys\<close> before the recall branch never run into it:
  the branch is unreachable.
\<close>

lemma group_sys_dispatch_never_next:
  "group_sys_dispatch fromstring handlers msg \<noteq> Next"
  by (simp add: group_sys_dispatch_def split: sum.split)

text \<open>A payload that does not parse: the error of the parser leaves \<open>handle_group_sys\<close>.\<close>

lemma handle_group_sys_parse_error:
  "fromstring (message msg) = Inl e \<Longrightarrow>
     handle_group_sys fromstring event_id handlers msg = Inl e"
  by (simp add: handle_group_sys_def group_sys_dispatch_def)

text \<open>
  With the handler that the source registers, every payload that parses ends in
  \<open>AttributeError\<close>: \<open>event(cls, msg)\<close> is called as \<open>handler(msg, xml_obj)\<close>, so its
  \<open>msg\<close> is the element, and its first statement reads \<open>msg.message\<close>.
\<close>

lemma handle_group_sys_registered_raises:
  "fromstring (message msg) = Inr xml_obj \<Longrightarrow>
     handle_group_sys fromstring event_id GROUP_SYS_HANDLERS msg = Inl AttributeError"
  by (simp add: handle_group_sys_def group_sys_dispatch_def GROUP_SYS_HANDLERS_def
        event_func_def call_unawaited_def)

text \<open>
  C9. On a recall notice, a payload that parses, \<open>handle_group_sys\<close> with the
  registered handler raises \<open>AttributeError\<close> and returns nothing. Called with the
  class and the message, as its parameters are named, the one registered handler
  declines: the result the claim describes is \<open>None\<close>.
\<close>

theorem handle_group_sys_attribute_error:
  "handle_group_sys ET_fromstring (ustr ''id-1'') GROUP_SYS_HANDLERS recall_message
     = Inl AttributeError
   \<and> call_unawaited event_func [AHandler, AMessage recall_message] = Inr (Result None)"
  by (simp add: handle_group_sys_def group_sys_dispatch_def GROUP_SYS_HANDLERS_def
        event_func_def call_unawaited_def recall_message_def ET_fromstring_def
        text_token_def is_name_start_def is_name_char_def is_data_char_def ustr_def)

section \<open>The gateway: theorems\<close>

text \<open>
  C10. When no access token is configured (it is \<open>None\<close> or empty), the check returns
  no rejection for any request: two requests have the same outcome, whatever their
  \<open>Authorization\<close> headers.
\<close>

theorem check_access_token_without_secret:
  assumes "\<not> truthy_str (onebot_access_token cfg)"
  shows "check_access_token get_bearer cfg req1 = None
         \<and> check_access_token get_bearer cfg req1 = check_access_token get_bearer cfg req2"
  using assms by (simp add: check_access_token_def Let_def)

theorem check_access_token_without_secret_witness:
  "\<not> truthy_str (onebot_access_token open_config)
   \<and> check_access_token bearer_of_header open_config
         (upgrade_request (Some (ustr ''Bearer guess''))) = None
   \<and> check_access_token bearer_of_header open_config (upgrade_request None) = None"
proof -
  have no_secret: "\<not> truthy_str (onebot_access_token open_config)"
    by (simp add: open_config_def)
  from check_access_token_without_secret
         [OF no_secret, of bearer_of_header "upgrade_request (Some (ustr ''Bearer guess''))"
            "upgrade_request None"]
       no_secret
  show ?thesis by auto
qed

text \<open>
  C8. When a secret is configured and the bearer token of the upgrade request is absent
  or differs from it, \<open>_handle_ws\<close> closes the socket with code 1008 and returns: the
  driver is as it was, \<open>ws_connect\<close> not having been called, so the session is not
  among those that events are sent to, and no frame is read.
\<close>

theorem handle_ws_rejects_before_connect:
  assumes "onebot_access_token cfg = Some secret"
    and "secret \<noteq> []"
    and "get_auth_bearer env (headers (ws_request (socket g)) (ustr ''Authorization'')) = token"
    and "token \<noteq> Some secret"
  shows "handle_ws env cfg g
           = Some (None,
                   g\<lparr>socket := (socket g)\<lparr>closes := closes (socket g) @
                       [CloseWith 1008
                          (if truthy_str token then ustr ''Authorization Header is invalid''
                           else ustr ''Missing Authorization Header'')]\<rparr>\<rparr>)
         \<and> map_option (\<lambda>r. driver (snd r)) (handle_ws env cfg g) = Some (driver g)
         \<and> map_option (\<lambda>r. inbox (socket (snd r))) (handle_ws env cfg g)
             = Some (inbox (socket g))"
  using assms by (auto simp add: handle_ws_def check_access_token_def Let_def)

theorem handle_ws_rejects_before_connect_witness:
  "handle_ws list_driver secret_config (fresh_gateway (Some (ustr ''Bearer guess'')))
     = Some (None,
             (fresh_gateway (Some (ustr ''Bearer guess'')))
               \<lparr>socket := \<lparr>ws_request = upgrade_request (Some (ustr ''Bearer guess'')),
                           closes = [CloseWith 1008 (ustr ''Authorization Header is invalid'')],
                           inbox = []\<rparr>\<rparr>)
   \<and> handle_ws list_driver secret_config (fresh_gateway None)
     = Some (None,
             (fresh_gateway None)
               \<lparr>socket := \<lparr>ws_request = upgrade_request None,
                           closes = [CloseWith 1008 (ustr ''Missing Authorization Header'')],
                           inbox = []\<rparr>\<rparr>)"
proof -
  have secret: "onebot_access_token secret_config = Some (ustr ''s3cret'')"
    by (simp add: secret_config_def)
  have nonempty: "ustr ''s3cret'' \<noteq> []"
    by (simp add: ustr_def)
  have wrong: "get_auth_bearer list_driver
                 (headers (ws_request (socket (fresh_gateway (Some (ustr ''Bearer guess'')))))
                    (ustr ''Authorization'')) = Some (ustr ''guess'')"
    by (simp add: list_driver_def fresh_gateway_def upgrade_request_def bearer_of_header_def
          starts_with_def ustr_def)
  have absent: "get_auth_bearer list_driver
                  (headers (ws_request (socket (fresh_gateway None))) (ustr ''Authorization''))
                  = None"
    by (simp add: list_driver_def fresh_gateway_def upgrade_request_def bearer_of_header_def)
  have differs: "Some (ustr ''guess'') \<noteq> Some (ustr ''s3cret'')"
    by (simp add: ustr_def)
  have "handle_ws list_driver secret_config (fresh_gateway (Some (ustr ''Bearer guess'')))
          = Some (None,
                  (fresh_gateway (Some (ustr ''Bearer guess'')))
                    \<lparr>socket := \<lparr>ws_request = upgrade_request (Some (ustr ''Bearer guess'')),
                                closes = [CloseWith 1008 (ustr ''Authorization Header is invalid'')],
                                inbox = []\<rparr>\<rparr>)"
    using handle_ws_rejects_before_connect [OF secret nonempty wrong differs]
    by (simp add: fresh_gateway_def ustr_def)
  moreover
  have "handle_ws list_driver secret_config (fresh_gateway None)
          = Some (None,
                  (fresh_gateway None)
                    \<lparr>socket := \<lparr>ws_request = upgrade_request None,
                                closes = [CloseWith 1008 (ustr ''Missing Authorization Header'')],
                                inbox = []\<rparr>\<rparr>)"
    using handle_ws_rejects_before_connect [OF secret nonempty absent]
    by (simp add: fresh_gateway_def)
  ultimately show ?thesis by simp
qed

end
